theory Spec2Isabelle
  imports Complex_Main "HOL-Library.Multiset" "HOL-Library.AList"
begin

section \<open>Python built-ins used by the notebooks\<close>


text \<open>\<^verbatim>\<open>max(a, b)\<close> keeps its first argument unless the second is strictly greater;
  \<^verbatim>\<open>min(a, b)\<close> keeps its first argument unless the second is strictly smaller.\<close>

definition py_max :: "'a::linorder \<Rightarrow> 'a \<Rightarrow> 'a" where
  "py_max a b = (if b > a then b else a)"

definition py_min :: "'a::linorder \<Rightarrow> 'a \<Rightarrow> 'a" where
  "py_min a b = (if b < a then b else a)"

text \<open>\<^verbatim>\<open>int(x)\<close> on a float drops the fractional part: it truncates towards zero.\<close>

definition py_int :: "real \<Rightarrow> int" where
  "py_int x = (if 0 \<le> x then \<lfloor>x\<rfloor> else \<lceil>x\<rceil>)"

section \<open>Batch scoring (V2): clamp, recovery days, recommendations\<close>

text \<open>
  The body of the loop \<^verbatim>\<open>for i, row in patients_df.iterrows()\<close>. The three
  pretrained models are opaque: they are parameters, functions from their input to a
  real. The meta-model receives the one-row frame
  \<^verbatim>\<open>{'Cardiac_Score': cardiac_score, 'Mobility_Score': mobility_score}\<close>, here its two
  entries.
  \<^verbatim>\<open>
    final_score = min(max(final_score, 0), 3)
    recovery_days = int(180 - final_score * 50)
  \<close>
\<close>

definition clamp_final_score :: "real \<Rightarrow> real" where
  "clamp_final_score raw = py_min (py_max raw 0) 3"

definition recovery_days_batch :: "real \<Rightarrow> int" where
  "recovery_days_batch final_score = py_int (180 - final_score * 50)"

text \<open>
  \<^verbatim>\<open>
    suggestions = []
    if cardiac_score < 40:
        suggestions.append("Increase supervised cardio rehab")
    if mobility_score < 100:
        suggestions.append("Continue mobility strengthening")
    if cardiac_score > 80 and mobility_score > 140:
        suggestions.append("Ready for transition to independent rehab")
    if mobility_score > 120 and cardiac_score < 50:
        suggestions.append("High mobility, monitor cardiac stress tolerance")
  \<close>
  The list is threaded through the four statements as explicit state.
\<close>

definition suggestions :: "real \<Rightarrow> real \<Rightarrow> string list" where
  "suggestions cardiac_score mobility_score =
     (let s0 = [];
          s1 = (if cardiac_score < 40
                then s0 @ [''Increase supervised cardio rehab''] else s0);
          s2 = (if mobility_score < 100
                then s1 @ [''Continue mobility strengthening''] else s1);
          s3 = (if cardiac_score > 80 \<and> mobility_score > 140
                then s2 @ [''Ready for transition to independent rehab''] else s2);
          s4 = (if mobility_score > 120 \<and> cardiac_score < 50
                then s3 @ [''High mobility, monitor cardiac stress tolerance''] else s3)
      in s4)"

record assessment =
  Cardiac_Score :: real
  Mobility_Score :: real
  Final_Score :: real
  Recovery_Days :: int
  Suggestions :: "string list"

text \<open>One pass of the loop body, from the two feature rows to the values the report
  row is built from (the report stores the three scores rounded to two decimals for
  display and the suggestions joined by \<^verbatim>\<open>"; "\<close>).\<close>

definition batch_predict ::
  "('e \<Rightarrow> real) \<Rightarrow> ('m \<Rightarrow> real) \<Rightarrow> (real \<Rightarrow> real \<Rightarrow> real) \<Rightarrow> 'e \<Rightarrow> 'm \<Rightarrow> assessment" where
  "batch_predict cardiac_model mobility_model meta_model ecg_row mob_row =
     (let cardiac_score = cardiac_model ecg_row;
          mobility_score = mobility_model mob_row;
          final_score = meta_model cardiac_score mobility_score;
          final_score = clamp_final_score final_score;
          recovery_days = recovery_days_batch final_score
      in \<lparr>Cardiac_Score = cardiac_score, Mobility_Score = mobility_score,
          Final_Score = final_score, Recovery_Days = recovery_days,
          Suggestions = suggestions cardiac_score mobility_score\<rparr>)"


section \<open>Percentile mapping (V1)\<close>



section \<open>Feature validation (V1)\<close>


section \<open>Cleaning wearable columns (V2)\<close>

text \<open>
  A frame is the ordered list of its named columns. A column has a dtype: \<open>Object\<close>
  (what \<^verbatim>\<open>read_csv\<close> gives a column with text in it: strings, and \<open>None\<close> for a
  missing cell) or a numeric dtype (\<open>None\<close> is NaN). Column names are distinct, as
  \<^verbatim>\<open>read_csv\<close> and \<^verbatim>\<open>merge\<close> leave them. Cell text is UTF-8, so the
  delimiter U+00B1 is the two bytes \<open>plus_minus\<close>; the pattern only matches ASCII
  characters, and a search for it gives the same result on bytes as on code points.
\<close>

datatype column = Numeric "real option list" | Object "string option list"

type_synonym frame = "(string \<times> column) list"

definition plus_minus :: string where
  "plus_minus = [CHR 0xC2, CHR 0xB1]"

fun contains :: "string \<Rightarrow> string \<Rightarrow> bool" where
  "contains pat [] = (pat = [])"
| "contains pat (c # cs) = (take (length pat) (c # cs) = pat \<or> contains pat cs)"

text \<open>\<^verbatim>\<open>df[col].str.contains(pat)\<close>: one answer per cell, missing for a missing cell;
  \<^verbatim>\<open>.any()\<close> skips the missing answers.\<close>

definition str_contains :: "string \<Rightarrow> string option list \<Rightarrow> bool option list" where
  "str_contains pat cells = map (map_option (contains pat)) cells"

definition any :: "bool option list \<Rightarrow> bool" where
  "any bs = list_ex (\<lambda>b. b = Some True) bs"

text \<open>
  The pattern \<^verbatim>\<open>([-+]?[0-9]*\.?[0-9]+)\<close> anchored at the start of a string. The
  backtracking matcher first takes the sign if there is one (without it the match
  cannot go on at the sign), then every digit, then a dot followed by at least one
  digit; when no such fraction follows, it gives the last digit of the integer part
  back to \<^verbatim>\<open>[0-9]+\<close>, and the match is the sign and the digits, which must be there.
\<close>

definition is_digit :: "char \<Rightarrow> bool" where
  "is_digit c = (c \<in> set ''0123456789'')"

definition match_number :: "string \<Rightarrow> string option" where
  "match_number s =
     (let sign = (case s of [] \<Rightarrow> [] | c # _ \<Rightarrow> if c = CHR ''-'' \<or> c = CHR ''+'' then [c] else []);
          s1 = drop (length sign) s;
          ds = takeWhile is_digit s1;
          s2 = dropWhile is_digit s1;
          fs = (case s2 of [] \<Rightarrow> [] | c # r \<Rightarrow> if c = CHR ''.'' then takeWhile is_digit r else [])
      in if fs \<noteq> [] then Some (sign @ ds @ ''.'' @ fs)
         else if ds \<noteq> [] then Some (sign @ ds)
         else None)"

text \<open>\<^verbatim>\<open>str.extract\<close> searches: the match at the leftmost position that has one.\<close>

fun search_number :: "string \<Rightarrow> string option" where
  "search_number [] = None"
| "search_number (c # cs) =
     (case match_number (c # cs) of Some m \<Rightarrow> Some m | None \<Rightarrow> search_number cs)"

definition str_extract :: "string option list \<Rightarrow> string option list" where
  "str_extract cells = map (\<lambda>cell. case cell of None \<Rightarrow> None | Some s \<Rightarrow> search_number s) cells"

text \<open>\<^verbatim>\<open>.astype(float)\<close> on the extracted text: sign, integer digits, fraction digits.\<close>

definition digit_value :: "char \<Rightarrow> nat" where
  "digit_value c = of_char c - 48"

definition digits_value :: "string \<Rightarrow> nat" where
  "digits_value ds = fold (\<lambda>c n. 10 * n + digit_value c) ds 0"

definition float_of_text :: "string \<Rightarrow> real" where
  "float_of_text s =
     (let negative = (case s of [] \<Rightarrow> False | c # _ \<Rightarrow> c = CHR ''-'');
          body = dropWhile (\<lambda>c. c = CHR ''-'' \<or> c = CHR ''+'') s;
          ds = takeWhile is_digit body;
          fs = drop 1 (dropWhile is_digit body);
          magnitude = real (digits_value ds) + real (digits_value fs) / 10 ^ length fs
      in if negative then - magnitude else magnitude)"

definition astype_float :: "string option list \<Rightarrow> real option list" where
  "astype_float cells = map (map_option float_of_text) cells"

text \<open>
  \<^verbatim>\<open>
  def clean_numeric_columns(df):
      for col in df.columns:
          if df[col].dtype == 'object' and df[col].str.contains("+-").any():
              df[col] = df[col].str.extract(r'([-+]?[0-9]*\.?[0-9]+)').astype(float)
      return df
  \<close>
  (the argument of \<^verbatim>\<open>contains\<close>, written \<^verbatim>\<open>+-\<close> here, is the one character
  U+00B1). The frame is mutated in place and returned: the loop body takes the frame
  and gives the frame after it. \<^verbatim>\<open>and\<close> does not evaluate \<^verbatim>\<open>.str\<close> on a numeric column.
\<close>

definition clean_column :: "string \<Rightarrow> frame \<Rightarrow> frame" where
  "clean_column col df =
     (case map_of df col of
        None \<Rightarrow> df
      | Some (Numeric vs) \<Rightarrow> df
      | Some (Object cells) \<Rightarrow>
          if any (str_contains plus_minus cells)
          then AList.update col (Numeric (astype_float (str_extract cells))) df
          else df)"

definition clean_numeric_columns :: "frame \<Rightarrow> frame" where
  "clean_numeric_columns df = fold clean_column (map fst df) df"

definition all_numeric :: "frame \<Rightarrow> bool" where
  "all_numeric df = list_all (\<lambda>(name, c). case c of Numeric vs \<Rightarrow> True | Object cells \<Rightarrow> False) df"

section \<open>Treadmill recovery markers (V2)\<close>

text \<open>
  One row of the treadmill log. A cell read from the file is a finite number or is
  missing (NaN), which is \<open>None\<close>. The session key \<open>ID_test\<close> and the subject
  \<open>ID\<close> are present in every row.
\<close>

record ('k, 'i) sample =
  ID_test :: 'k
  ID :: 'i
  time :: "real option"
  VO2 :: "real option"
  HR :: "real option"
  VE :: "real option"

text \<open>A row that \<^verbatim>\<open>dropna(subset=["VO2", "HR", "VE"])\<close> keeps: the three values are
  there, the time may still be missing.\<close>

record 'i reading =
  r_ID :: 'i
  r_time :: "real option"
  r_VO2 :: real
  r_HR :: real
  r_VE :: real








fun dropna_subset :: "('k, 'i) sample list \<Rightarrow> 'i reading list" where
  "dropna_subset [] = []"
| "dropna_subset (r # rs) =
     (case (VO2 r, HR r, VE r) of
        (Some v, Some h, Some e) \<Rightarrow>
          \<lparr>r_ID = ID r, r_time = time r, r_VO2 = v, r_HR = h, r_VE = e\<rparr> # dropna_subset rs
      | _ \<Rightarrow> dropna_subset rs)"








section \<open>Properties of the batch scoring\<close>



text \<open>
  Claim C1. Whatever the two feature rows and whatever real number the meta-model
  returns, the final score of the batch path lies in the closed interval from 0 to 3:
  a raw value below 0 becomes 0, a raw value above 3 becomes 3, and a raw value
  inside the interval is kept.
\<close>

theorem final_score_clamped:
  fixes meta_model :: "real \<Rightarrow> real \<Rightarrow> real"
  assumes "raw = meta_model (cardiac_model ecg_row) (mobility_model mob_row)"
    and "fs = Final_Score (batch_predict cardiac_model mobility_model meta_model ecg_row mob_row)"
  shows "0 \<le> fs \<and> fs \<le> 3 \<and> (raw < 0 \<longrightarrow> fs = 0) \<and> (3 < raw \<longrightarrow> fs = 3)
         \<and> (0 \<le> raw \<and> raw \<le> 3 \<longrightarrow> fs = raw)"
  using assms
  by (simp add: batch_predict_def Let_def clamp_final_score_def py_min_def py_max_def)

text \<open>The raw outputs \<open>-100\<close> and \<open>+100\<close>: the meta-model adds its two inputs.\<close>

theorem final_score_clamped_witness:
  "Final_Score (batch_predict id id (+) (- 100) 0) = 0 \<and>
   Final_Score (batch_predict id id (+) 100 0) = 3"
  using final_score_clamped [of "- 100" "(+)" id "- 100" id 0, OF _ refl]
    final_score_clamped [of "100" "(+)" id "100" id 0, OF _ refl]
  by simp



text \<open>
  Claim C7. The four rules are evaluated in their order and each adds its message on
  its own condition only, whatever the other rules did; with both scores at 10 the
  list is rule 1's message followed by rule 2's. The batch path applies the rules to
  the two sub-model scores.
\<close>

theorem suggestions_independent_rules:
  "suggestions cardiac_score mobility_score =
     (if cardiac_score < 40 then [''Increase supervised cardio rehab''] else []) @
     (if mobility_score < 100 then [''Continue mobility strengthening''] else []) @
     (if cardiac_score > 80 \<and> mobility_score > 140
      then [''Ready for transition to independent rehab''] else []) @
     (if mobility_score > 120 \<and> cardiac_score < 50
      then [''High mobility, monitor cardiac stress tolerance''] else [])
   \<and> suggestions 10 10 =
       [''Increase supervised cardio rehab'', ''Continue mobility strengthening'']
   \<and> Suggestions (batch_predict cardiac_model mobility_model meta_model ecg_row mob_row)
       = suggestions (cardiac_model ecg_row) (mobility_model mob_row)"
  by (simp add: suggestions_def batch_predict_def Let_def)

text \<open>
  Claim C10. No pair of scores gets both the message of rule 3 and the message of
  rule 4: rule 3 needs a cardiac score above 80, rule 4 one below 50.
\<close>

theorem ready_and_monitor_exclusive:
  "\<not> (''Ready for transition to independent rehab'' \<in> set (suggestions cardiac_score mobility_score)
      \<and> ''High mobility, monitor cardiac stress tolerance'' \<in> set (suggestions cardiac_score mobility_score))"
  by (simp add: suggestions_def Let_def)

section \<open>Properties of the percentile mapping\<close>




section \<open>Properties of the feature validation\<close>




section \<open>Properties of the column cleaning\<close>

lemma clean_column_numeric: "all_numeric df \<Longrightarrow> clean_column col df = df"
proof -
  assume a: "all_numeric df"
  have "\<exists>vs. c = Numeric vs" if "map_of df col = Some c" for c
  proof -
    from that have "(col, c) \<in> set df" by (rule map_of_SomeD)
    with a show ?thesis
      by (auto simp: all_numeric_def list_all_iff split: column.splits)
  qed
  then show ?thesis
    by (auto simp: clean_column_def split: option.splits column.splits)
qed

lemma fold_clean_column_numeric: "all_numeric df \<Longrightarrow> fold clean_column cols df = df"
  by (induction cols) (simp_all add: clean_column_numeric)

text \<open>
  Claim C8. Cleaning a frame whose columns all have a numeric dtype returns the frame
  as it is: the same columns, in the same order, with the same values.
\<close>

theorem clean_numeric_columns_numeric_unchanged:
  "all_numeric df \<Longrightarrow> clean_numeric_columns df = df"
  by (simp add: clean_numeric_columns_def fold_clean_column_numeric)

theorem clean_numeric_columns_numeric_unchanged_witness:
  "all_numeric [(''Cadence, steps/min'', Numeric [Some 115, None]),
                (''Velocity, km/h'', Numeric [Some 1.5, Some 2])]
   \<and> clean_numeric_columns [(''Cadence, steps/min'', Numeric [Some 115, None]),
                            (''Velocity, km/h'', Numeric [Some 1.5, Some 2])]
     = [(''Cadence, steps/min'', Numeric [Some 115, None]),
        (''Velocity, km/h'', Numeric [Some 1.5, Some 2])]"
proof -
  have h: "all_numeric [(''Cadence, steps/min'', Numeric [Some 115, None]),
                        (''Velocity, km/h'', Numeric [Some 1.5, Some 2])]"
    by (simp add: all_numeric_def)
  from clean_numeric_columns_numeric_unchanged [OF h] h show ?thesis by simp
qed

section \<open>Properties of the treadmill markers\<close>













lemma dropna_subset_append:
  "dropna_subset (xs @ ys) = dropna_subset xs @ dropna_subset ys"
  by (induction xs) (simp_all split: option.splits)















end
